theory Spec2Isabelle
  imports Main "HOL-Library.Word"
begin

unbundle bit_operations_syntax

section \<open>Fixed-width unsigned integers\<close>

text \<open>
  The conversion functions of \<^verbatim>\<open>hodea/core/cpu_endian.hpp\<close> take and return
  \<^verbatim>\<open>uint16_t\<close>, \<^verbatim>\<open>uint32_t\<close> and \<^verbatim>\<open>uint64_t\<close> by value. They are modelled as
  words of the same width.
\<close>

type_synonym uint16_t = "16 word"
type_synonym uint32_t = "32 word"
type_synonym uint64_t = "64 word"

section \<open>Detection of the byte order by the preprocessor\<close>

text \<open>
  Lines 33 to 72 of \<^verbatim>\<open>cpu_endian.hpp\<close> derive the macro \<^verbatim>\<open>HODEA_IS_CPU_LE\<close> from macros
  predefined by the compiler, and stop the translation with two \<^verbatim>\<open>#error\<close> directives
  when the macro is still undefined afterwards. The environment below records exactly the
  macros these lines look at: whether a macro is defined (for the ones tested with
  \<^verbatim>\<open>defined\<close>), its integer value when it is compared in an \<^verbatim>\<open>#if\<close>, and the value
  of \<^verbatim>\<open>HODEA_IS_CPU_LE\<close> given on the command line, if any.

  The preprocessor evaluates the operands of \<^verbatim>\<open>==\<close> in \<^verbatim>\<open>intmax_t\<close> or
  \<^verbatim>\<open>uintmax_t\<close>, which have 64 bits with the compilers the header names. After the usual
  arithmetic conversions two operands are equal exactly when their 64-bit representations
  are equal, whatever their signedness: \<^verbatim>\<open>-1 == 0xFFFFFFFFFFFFFFFF\<close> holds. The
  environment therefore records the 64-bit representation of a macro's value.
\<close>

type_synonym pp_number = "64 word"

record cpp_env =
  def_GNUC :: bool
  def_clang :: bool
  val_BYTE_ORDER :: "pp_number option"
  val_ORDER_LITTLE_ENDIAN :: "pp_number option"
  val_ORDER_BIG_ENDIAN :: "pp_number option"
  def_CC_ARM :: bool
  def_BIG_ENDIAN :: bool
  def_ICCARM :: bool
  val_LITTLE_ENDIAN :: "pp_number option"
  cmdline_HODEA_IS_CPU_LE :: "bool option"

text \<open>
  In the controlling expression of \<^verbatim>\<open>#if\<close> an identifier that is not a macro is
  replaced by \<^verbatim>\<open>0\<close>.
\<close>

definition pp_value :: "pp_number option \<Rightarrow> pp_number" where
  "pp_value m = (case m of None \<Rightarrow> 0 | Some v \<Rightarrow> v)"

text \<open>
  The state of \<^verbatim>\<open>HODEA_IS_CPU_LE\<close> after the detection chain (lines 33 to 67). A branch
  that reaches no \<^verbatim>\<open>#define\<close> leaves the macro as the command line set it; a
  \<^verbatim>\<open>#define\<close> that is reached replaces the value of the command line (compilers warn
  when the two differ, and go on with the new one).
\<close>

definition detect_HODEA_IS_CPU_LE :: "cpp_env \<Rightarrow> bool option" where
  "detect_HODEA_IS_CPU_LE e =
    (if def_GNUC e \<or> def_clang e then
       (if pp_value (val_BYTE_ORDER e) = pp_value (val_ORDER_LITTLE_ENDIAN e) then Some True
        else if pp_value (val_BYTE_ORDER e) = pp_value (val_ORDER_BIG_ENDIAN e) then Some False
        else cmdline_HODEA_IS_CPU_LE e)
     else if def_CC_ARM e then
       (if def_BIG_ENDIAN e then Some False else Some True)
     else if def_ICCARM e then
       (if pp_value (val_LITTLE_ENDIAN e) = 0 then Some False
        else if pp_value (val_LITTLE_ENDIAN e) = 1 then Some True
        else cmdline_HODEA_IS_CPU_LE e)
     else cmdline_HODEA_IS_CPU_LE e)"

text \<open>
  Lines 69 to 72: the translation either stops with the text of the two \<^verbatim>\<open>#error\<close>
  directives, or goes on with the value of \<^verbatim>\<open>HODEA_IS_CPU_LE\<close>.
\<close>

definition undetected_diagnostics :: "string list" where
  "undetected_diagnostics =
    [''Unable to detect cpu endianness via predefined macros.'',
     ''Please provide HODEA_IS_CPU_LE = true or false via command line.'']"

definition preprocess :: "cpp_env \<Rightarrow> string list + bool" where
  "preprocess e =
    (case detect_HODEA_IS_CPU_LE e of
       None \<Rightarrow> Inl undetected_diagnostics
     | Some le \<Rightarrow> Inr le)"

text \<open>
  A test environment: a compiler that defines none of the macros the header looks at, and
  no value of \<^verbatim>\<open>HODEA_IS_CPU_LE\<close> on the command line.
\<close>

definition unknown_toolchain :: cpp_env where
  "unknown_toolchain =
    \<lparr>def_GNUC = False, def_clang = False, val_BYTE_ORDER = None,
     val_ORDER_LITTLE_ENDIAN = None, val_ORDER_BIG_ENDIAN = None, def_CC_ARM = False,
     def_BIG_ENDIAN = False, def_ICCARM = False, val_LITTLE_ENDIAN = None,
     cmdline_HODEA_IS_CPU_LE = None\<rparr>"

text \<open>
  A test environment: gcc or clang, where \<^verbatim>\<open>__BYTE_ORDER__\<close> is \<^verbatim>\<open>-1\<close> and
  \<^verbatim>\<open>__ORDER_LITTLE_ENDIAN__\<close> is \<^verbatim>\<open>0xFFFFFFFFFFFFFFFF\<close>.
\<close>

definition gnuc_minus_one :: cpp_env where
  "gnuc_minus_one =
    \<lparr>def_GNUC = True, def_clang = False, val_BYTE_ORDER = Some (- 1),
     val_ORDER_LITTLE_ENDIAN = Some 0xFFFFFFFFFFFFFFFF, val_ORDER_BIG_ENDIAN = Some 4321,
     def_CC_ARM = False, def_BIG_ENDIAN = False, def_ICCARM = False,
     val_LITTLE_ENDIAN = None, cmdline_HODEA_IS_CPU_LE = None\<rparr>"

section \<open>Queries of the byte order\<close>

text \<open>
  Every function below is a \<^verbatim>\<open>constexpr\<close> function of the header. The value of the macro
  \<^verbatim>\<open>HODEA_IS_CPU_LE\<close>, fixed for a build, is their first argument.
\<close>

definition HODEA_IS_CPU_BE :: "bool \<Rightarrow> bool" where
  "HODEA_IS_CPU_BE HODEA_IS_CPU_LE = (\<not> HODEA_IS_CPU_LE)"

definition is_cpu_le :: "bool \<Rightarrow> bool" where
  "is_cpu_le HODEA_IS_CPU_LE = HODEA_IS_CPU_LE"

definition is_cpu_be :: "bool \<Rightarrow> bool" where
  "is_cpu_be HODEA_IS_CPU_LE = HODEA_IS_CPU_BE HODEA_IS_CPU_LE"

section \<open>The unconditional byte swap\<close>

text \<open>
  Modelled from the spec: the header \<^verbatim>\<open>hodea/core/uswap.hpp\<close>, which declares
  \<^verbatim>\<open>uswap16\<close>, \<^verbatim>\<open>uswap32\<close> and \<^verbatim>\<open>uswap64\<close>, is not among the sources. The
  specification describes the swap as a shift-and-mask decomposition of the value into its
  bytes, reassembled in reverse order. \<open>get_byte x i\<close> is the shift-and-mask that
  extracts the byte at position \<open>i\<close> (position 0 is the least significant byte).
\<close>

definition get_byte :: "'a::len word \<Rightarrow> nat \<Rightarrow> 'a word" where
  "get_byte x i = drop_bit (8 * i) x AND 0xFF"

text \<open>
  Modelled from the spec: the shift that places a byte at position \<open>i\<close> when the bytes
  are reassembled (\<^verbatim>\<open>uswap.hpp\<close> is not among the sources).
\<close>

definition put_byte :: "'a::len word \<Rightarrow> nat \<Rightarrow> 'a word" where
  "put_byte b i = push_bit (8 * i) b"

text \<open>
  Modelled from the spec: \<^verbatim>\<open>uswap16\<close> of the missing \<^verbatim>\<open>uswap.hpp\<close>, the two bytes of a
  16-bit value reassembled in reverse order.
\<close>

definition uswap16 :: "uint16_t \<Rightarrow> uint16_t" where
  "uswap16 x = put_byte (get_byte x 0) 1 OR put_byte (get_byte x 1) 0"

text \<open>
  Modelled from the spec: \<^verbatim>\<open>uswap32\<close> of the missing \<^verbatim>\<open>uswap.hpp\<close>, the four bytes of a
  32-bit value reassembled in reverse order.
\<close>

definition uswap32 :: "uint32_t \<Rightarrow> uint32_t" where
  "uswap32 x =
     put_byte (get_byte x 0) 3 OR put_byte (get_byte x 1) 2 OR
     put_byte (get_byte x 2) 1 OR put_byte (get_byte x 3) 0"

text \<open>
  Modelled from the spec: \<^verbatim>\<open>uswap64\<close> of the missing \<^verbatim>\<open>uswap.hpp\<close>, the eight bytes of
  a 64-bit value reassembled in reverse order.
\<close>

definition uswap64 :: "uint64_t \<Rightarrow> uint64_t" where
  "uswap64 x =
     put_byte (get_byte x 0) 7 OR put_byte (get_byte x 1) 6 OR
     put_byte (get_byte x 2) 5 OR put_byte (get_byte x 3) 4 OR
     put_byte (get_byte x 4) 3 OR put_byte (get_byte x 5) 2 OR
     put_byte (get_byte x 6) 1 OR put_byte (get_byte x 7) 0"

section \<open>Conversions between CPU byte order and a given byte order\<close>

definition cpu_to_le16 :: "bool \<Rightarrow> uint16_t \<Rightarrow> uint16_t" where
  "cpu_to_le16 HODEA_IS_CPU_LE x = (if is_cpu_le HODEA_IS_CPU_LE then x else uswap16 x)"

definition cpu_to_le32 :: "bool \<Rightarrow> uint32_t \<Rightarrow> uint32_t" where
  "cpu_to_le32 HODEA_IS_CPU_LE x = (if is_cpu_le HODEA_IS_CPU_LE then x else uswap32 x)"

definition cpu_to_le64 :: "bool \<Rightarrow> uint64_t \<Rightarrow> uint64_t" where
  "cpu_to_le64 HODEA_IS_CPU_LE x = (if is_cpu_le HODEA_IS_CPU_LE then x else uswap64 x)"

definition cpu_to_be16 :: "bool \<Rightarrow> uint16_t \<Rightarrow> uint16_t" where
  "cpu_to_be16 HODEA_IS_CPU_LE x = (if is_cpu_be HODEA_IS_CPU_LE then x else uswap16 x)"

definition cpu_to_be32 :: "bool \<Rightarrow> uint32_t \<Rightarrow> uint32_t" where
  "cpu_to_be32 HODEA_IS_CPU_LE x = (if is_cpu_be HODEA_IS_CPU_LE then x else uswap32 x)"

definition cpu_to_be64 :: "bool \<Rightarrow> uint64_t \<Rightarrow> uint64_t" where
  "cpu_to_be64 HODEA_IS_CPU_LE x = (if is_cpu_be HODEA_IS_CPU_LE then x else uswap64 x)"

definition le16_to_cpu :: "bool \<Rightarrow> uint16_t \<Rightarrow> uint16_t" where
  "le16_to_cpu HODEA_IS_CPU_LE x = cpu_to_le16 HODEA_IS_CPU_LE x"

definition le32_to_cpu :: "bool \<Rightarrow> uint32_t \<Rightarrow> uint32_t" where
  "le32_to_cpu HODEA_IS_CPU_LE x = cpu_to_le32 HODEA_IS_CPU_LE x"

definition le64_to_cpu :: "bool \<Rightarrow> uint64_t \<Rightarrow> uint64_t" where
  "le64_to_cpu HODEA_IS_CPU_LE x = cpu_to_le64 HODEA_IS_CPU_LE x"

definition be16_to_cpu :: "bool \<Rightarrow> uint16_t \<Rightarrow> uint16_t" where
  "be16_to_cpu HODEA_IS_CPU_LE x = cpu_to_be16 HODEA_IS_CPU_LE x"

definition be32_to_cpu :: "bool \<Rightarrow> uint32_t \<Rightarrow> uint32_t" where
  "be32_to_cpu HODEA_IS_CPU_LE x = cpu_to_be32 HODEA_IS_CPU_LE x"

definition be64_to_cpu :: "bool \<Rightarrow> uint64_t \<Rightarrow> uint64_t" where
  "be64_to_cpu HODEA_IS_CPU_LE x = cpu_to_be64 HODEA_IS_CPU_LE x"

section \<open>The conversions with the undefined operations of C++ made explicit\<close>

text \<open>
  The only operations of the conversions that C++ leaves undefined for some operands are
  the shifts of the byte swap: a shift by a count that is not less than the width of the
  shifted operand has no defined result. (For a \<^verbatim>\<open>uint16_t\<close> operand, which is promoted
  before the shift, the bound of 16 is stricter than the language's.) The definitions below
  repeat the swap and the conversions with a result that is either the undefined operation
  that was met or the value.
\<close>

datatype undefined_operation = Shift_count_out_of_range

definition shift_right_checked :: "'a::len word \<Rightarrow> nat \<Rightarrow> undefined_operation + 'a word" where
  "shift_right_checked x n =
    (if n < LENGTH('a) then Inr (drop_bit n x) else Inl Shift_count_out_of_range)"

definition shift_left_checked :: "'a::len word \<Rightarrow> nat \<Rightarrow> undefined_operation + 'a word" where
  "shift_left_checked x n =
    (if n < LENGTH('a) then Inr (push_bit n x) else Inl Shift_count_out_of_range)"

text \<open>
  Modelled from the spec: the shift-and-mask that extracts the byte at position \<open>i\<close>
  followed by the shift that places it at position \<open>j\<close>, as in \<open>get_byte\<close> and
  \<open>put_byte\<close>, with checked shifts (\<^verbatim>\<open>uswap.hpp\<close> is not among the sources).
\<close>

definition move_byte_checked ::
  "'a::len word \<Rightarrow> nat \<Rightarrow> nat \<Rightarrow> undefined_operation + 'a word" where
  "move_byte_checked x i j =
    (case shift_right_checked x (8 * i) of
       Inl u \<Rightarrow> Inl u
     | Inr y \<Rightarrow> shift_left_checked (y AND 0xFF) (8 * j))"

text \<open>The bitwise or of two results; an undefined operand makes the result undefined.\<close>

definition or_checked ::
  "undefined_operation + 'a::len word \<Rightarrow> undefined_operation + 'a word \<Rightarrow>
   undefined_operation + 'a word" where
  "or_checked a b =
    (case a of
       Inl u \<Rightarrow> Inl u
     | Inr x \<Rightarrow> (case b of Inl u \<Rightarrow> Inl u | Inr y \<Rightarrow> Inr (x OR y)))"

text \<open>
  Modelled from the spec: \<^verbatim>\<open>uswap16\<close> of the missing \<^verbatim>\<open>uswap.hpp\<close> with checked shifts.
\<close>

definition uswap16_checked :: "uint16_t \<Rightarrow> undefined_operation + uint16_t" where
  "uswap16_checked x = or_checked (move_byte_checked x 0 1) (move_byte_checked x 1 0)"

text \<open>
  Modelled from the spec: \<^verbatim>\<open>uswap32\<close> of the missing \<^verbatim>\<open>uswap.hpp\<close> with checked shifts.
\<close>

definition uswap32_checked :: "uint32_t \<Rightarrow> undefined_operation + uint32_t" where
  "uswap32_checked x =
     or_checked (move_byte_checked x 0 3) (or_checked (move_byte_checked x 1 2)
    (or_checked (move_byte_checked x 2 1) (move_byte_checked x 3 0)))"

text \<open>
  Modelled from the spec: \<^verbatim>\<open>uswap64\<close> of the missing \<^verbatim>\<open>uswap.hpp\<close> with checked shifts.
\<close>

definition uswap64_checked :: "uint64_t \<Rightarrow> undefined_operation + uint64_t" where
  "uswap64_checked x =
     or_checked (move_byte_checked x 0 7) (or_checked (move_byte_checked x 1 6)
    (or_checked (move_byte_checked x 2 5) (or_checked (move_byte_checked x 3 4)
    (or_checked (move_byte_checked x 4 3) (or_checked (move_byte_checked x 5 2)
    (or_checked (move_byte_checked x 6 1) (move_byte_checked x 7 0)))))))"

text \<open>
  Lines 95 to 186 of the header once more. The conversions add no operation of their own
  that can be undefined: they return the argument, or what the swap returns.
\<close>

definition cpu_to_le16_checked :: "bool \<Rightarrow> uint16_t \<Rightarrow> undefined_operation + uint16_t" where
  "cpu_to_le16_checked HODEA_IS_CPU_LE x =
    (if is_cpu_le HODEA_IS_CPU_LE then Inr x else uswap16_checked x)"

definition cpu_to_le32_checked :: "bool \<Rightarrow> uint32_t \<Rightarrow> undefined_operation + uint32_t" where
  "cpu_to_le32_checked HODEA_IS_CPU_LE x =
    (if is_cpu_le HODEA_IS_CPU_LE then Inr x else uswap32_checked x)"

definition cpu_to_le64_checked :: "bool \<Rightarrow> uint64_t \<Rightarrow> undefined_operation + uint64_t" where
  "cpu_to_le64_checked HODEA_IS_CPU_LE x =
    (if is_cpu_le HODEA_IS_CPU_LE then Inr x else uswap64_checked x)"

definition cpu_to_be16_checked :: "bool \<Rightarrow> uint16_t \<Rightarrow> undefined_operation + uint16_t" where
  "cpu_to_be16_checked HODEA_IS_CPU_LE x =
    (if is_cpu_be HODEA_IS_CPU_LE then Inr x else uswap16_checked x)"

definition cpu_to_be32_checked :: "bool \<Rightarrow> uint32_t \<Rightarrow> undefined_operation + uint32_t" where
  "cpu_to_be32_checked HODEA_IS_CPU_LE x =
    (if is_cpu_be HODEA_IS_CPU_LE then Inr x else uswap32_checked x)"

definition cpu_to_be64_checked :: "bool \<Rightarrow> uint64_t \<Rightarrow> undefined_operation + uint64_t" where
  "cpu_to_be64_checked HODEA_IS_CPU_LE x =
    (if is_cpu_be HODEA_IS_CPU_LE then Inr x else uswap64_checked x)"

definition le16_to_cpu_checked :: "bool \<Rightarrow> uint16_t \<Rightarrow> undefined_operation + uint16_t" where
  "le16_to_cpu_checked HODEA_IS_CPU_LE x = cpu_to_le16_checked HODEA_IS_CPU_LE x"

definition le32_to_cpu_checked :: "bool \<Rightarrow> uint32_t \<Rightarrow> undefined_operation + uint32_t" where
  "le32_to_cpu_checked HODEA_IS_CPU_LE x = cpu_to_le32_checked HODEA_IS_CPU_LE x"

definition le64_to_cpu_checked :: "bool \<Rightarrow> uint64_t \<Rightarrow> undefined_operation + uint64_t" where
  "le64_to_cpu_checked HODEA_IS_CPU_LE x = cpu_to_le64_checked HODEA_IS_CPU_LE x"

definition be16_to_cpu_checked :: "bool \<Rightarrow> uint16_t \<Rightarrow> undefined_operation + uint16_t" where
  "be16_to_cpu_checked HODEA_IS_CPU_LE x = cpu_to_be16_checked HODEA_IS_CPU_LE x"

definition be32_to_cpu_checked :: "bool \<Rightarrow> uint32_t \<Rightarrow> undefined_operation + uint32_t" where
  "be32_to_cpu_checked HODEA_IS_CPU_LE x = cpu_to_be32_checked HODEA_IS_CPU_LE x"

definition be64_to_cpu_checked :: "bool \<Rightarrow> uint64_t \<Rightarrow> undefined_operation + uint64_t" where
  "be64_to_cpu_checked HODEA_IS_CPU_LE x = cpu_to_be64_checked HODEA_IS_CPU_LE x"

section \<open>Positions of bits under a byte reversal\<close>

text \<open>
  A device of the proofs, not a function of the header: in a value of \<open>b\<close> bytes,
  \<open>rev_index b n\<close> is the bit position in the byte at position \<open>b - 1 - n div 8\<close>
  that has the same offset inside its byte as position \<open>n\<close>.
\<close>

definition rev_index :: "nat \<Rightarrow> nat \<Rightarrow> nat" where
  "rev_index b n = 8 * (b - 1 - n div 8) + n mod 8"

section \<open>Unfolding the conversions\<close>

lemmas query_defs = is_cpu_le_def is_cpu_be_def HODEA_IS_CPU_BE_def

lemmas cpu_to_defs =
  cpu_to_le16_def cpu_to_le32_def cpu_to_le64_def
  cpu_to_be16_def cpu_to_be32_def cpu_to_be64_def

lemmas to_cpu_defs =
  le16_to_cpu_def le32_to_cpu_def le64_to_cpu_def
  be16_to_cpu_def be32_to_cpu_def be64_to_cpu_def

lemmas uswap_defs = uswap16_def uswap32_def uswap64_def get_byte_def put_byte_def

lemmas cpu_to_checked_defs =
  cpu_to_le16_checked_def cpu_to_le32_checked_def cpu_to_le64_checked_def
  cpu_to_be16_checked_def cpu_to_be32_checked_def cpu_to_be64_checked_def

lemmas to_cpu_checked_defs =
  le16_to_cpu_checked_def le32_to_cpu_checked_def le64_to_cpu_checked_def
  be16_to_cpu_checked_def be32_to_cpu_checked_def be64_to_cpu_checked_def

section \<open>Bits of the byte swap\<close>

lemma byte_mask: "(0xFF :: 'a::len word) = mask 8"
  by (simp add: mask_eq_exp_minus_1)

lemma bit_get_byte: "bit (get_byte x i) n \<longleftrightarrow> n < 8 \<and> bit x (8 * i + n)"
  unfolding get_byte_def byte_mask
  by (auto simp add: bit_simps dest: bit_imp_le_length)

lemma bit_put_byte:
  "bit (put_byte b i :: 'a::len word) n \<longleftrightarrow>
     8 * i \<le> n \<and> n < LENGTH('a) \<and> bit b (n - 8 * i)"
  unfolding put_byte_def
  by (auto simp add: bit_simps dest: bit_imp_le_length)

lemma bit_move_byte:
  "bit (put_byte (get_byte x i) j :: 'a::len word) n \<longleftrightarrow>
     8 * j \<le> n \<and> n < 8 * j + 8 \<and> n < LENGTH('a) \<and> bit x (8 * i + (n - 8 * j))"
  by (auto simp add: bit_put_byte bit_get_byte)

lemma rev_index_less:
  assumes "n < 8 * b"
  shows "rev_index b n < 8 * b"
proof -
  from assms have "n div 8 < b"
    by (simp add: less_mult_imp_div_less mult.commute)
  then have "8 * (b - 1 - n div 8) + 8 \<le> 8 * b"
    by simp
  moreover have "n mod 8 < 8"
    by simp
  ultimately show ?thesis
    unfolding rev_index_def by linarith
qed

lemma rev_index_rev_index:
  assumes "n < 8 * b"
  shows "rev_index b (rev_index b n) = n"
proof -
  from assms have q: "n div 8 < b"
    by (simp add: less_mult_imp_div_less mult.commute)
  have d: "(8 * (b - 1 - n div 8) + n mod 8) div 8 = b - 1 - n div 8"
    by simp
  have m: "(8 * (b - 1 - n div 8) + n mod 8) mod 8 = n mod 8"
    by simp
  from q have "b - 1 - (b - 1 - n div 8) = n div 8"
    by simp
  then show ?thesis
    unfolding rev_index_def d m by simp
qed

text \<open>Bit \<open>r\<close> of byte \<open>q\<close> of the swapped value is bit \<open>r\<close> of the mirrored byte.\<close>

lemma bit_uswap16_byte:
  assumes "q < 2" "r < 8"
  shows "bit (uswap16 x) (8 * q + r) = bit x (8 * (1 - q) + r)"
proof -
  from assms(1) have "q = 0 \<or> q = 1"
    by arith
  then show ?thesis
    using assms(2)
    by (elim disjE; simp add: uswap16_def bit_or_iff bit_move_byte)
qed

lemma bit_uswap32_byte:
  assumes "q < 4" "r < 8"
  shows "bit (uswap32 x) (8 * q + r) = bit x (8 * (3 - q) + r)"
proof -
  from assms(1) have "q = 0 \<or> q = 1 \<or> q = 2 \<or> q = 3"
    by arith
  then show ?thesis
    using assms(2)
    by (elim disjE; simp add: uswap32_def bit_or_iff bit_move_byte)
qed

lemma bit_uswap64_byte:
  assumes "q < 8" "r < 8"
  shows "bit (uswap64 x) (8 * q + r) = bit x (8 * (7 - q) + r)"
proof -
  from assms(1)
  have "q = 0 \<or> q = 1 \<or> q = 2 \<or> q = 3 \<or> q = 4 \<or> q = 5 \<or> q = 6 \<or> q = 7"
    by arith
  then show ?thesis
    using assms(2)
    by (elim disjE; simp add: uswap64_def bit_or_iff bit_move_byte)
qed

lemma bit_uswap16: "bit (uswap16 x) n \<longleftrightarrow> n < 16 \<and> bit x (rev_index 2 n)"
proof (cases "n < 16")
  case True
  then have "n div 8 < 2" "n mod 8 < 8"
    by simp_all
  from bit_uswap16_byte [OF this, of x] True show ?thesis
    by (simp add: rev_index_def)
next
  case False
  then show ?thesis
    by (auto dest: bit_imp_le_length)
qed

lemma bit_uswap32: "bit (uswap32 x) n \<longleftrightarrow> n < 32 \<and> bit x (rev_index 4 n)"
proof (cases "n < 32")
  case True
  then have "n div 8 < 4" "n mod 8 < 8"
    by simp_all
  from bit_uswap32_byte [OF this, of x] True show ?thesis
    by (simp add: rev_index_def)
next
  case False
  then show ?thesis
    by (auto dest: bit_imp_le_length)
qed

lemma bit_uswap64: "bit (uswap64 x) n \<longleftrightarrow> n < 64 \<and> bit x (rev_index 8 n)"
proof (cases "n < 64")
  case True
  then have "n div 8 < 8" "n mod 8 < 8"
    by simp_all
  from bit_uswap64_byte [OF this, of x] True show ?thesis
    by (simp add: rev_index_def)
next
  case False
  then show ?thesis
    by (auto dest: bit_imp_le_length)
qed

section \<open>Properties of the byte swap\<close>

lemma uswap16_uswap16: "uswap16 (uswap16 x) = x"
proof (rule bit_word_eqI)
  fix n assume "n < LENGTH(16)"
  then have n: "n < 8 * 2"
    by simp
  from rev_index_less [OF n] rev_index_rev_index [OF n] n
  show "bit (uswap16 (uswap16 x)) n = bit x n"
    by (simp add: bit_uswap16)
qed

lemma uswap32_uswap32: "uswap32 (uswap32 x) = x"
proof (rule bit_word_eqI)
  fix n assume "n < LENGTH(32)"
  then have n: "n < 8 * 4"
    by simp
  from rev_index_less [OF n] rev_index_rev_index [OF n] n
  show "bit (uswap32 (uswap32 x)) n = bit x n"
    by (simp add: bit_uswap32)
qed

lemma uswap64_uswap64: "uswap64 (uswap64 x) = x"
proof (rule bit_word_eqI)
  fix n assume "n < LENGTH(64)"
  then have n: "n < 8 * 8"
    by simp
  from rev_index_less [OF n] rev_index_rev_index [OF n] n
  show "bit (uswap64 (uswap64 x)) n = bit x n"
    by (simp add: bit_uswap64)
qed

lemma uswap16_not: "uswap16 (NOT x) = NOT (uswap16 x)"
proof (rule bit_word_eqI)
  fix n assume "n < LENGTH(16)"
  then have n: "n < 8 * 2"
    by simp
  from rev_index_less [OF n] n
  show "bit (uswap16 (NOT x)) n = bit (NOT (uswap16 x)) n"
    by (simp add: bit_uswap16 bit_not_iff)
qed

lemma uswap32_not: "uswap32 (NOT x) = NOT (uswap32 x)"
proof (rule bit_word_eqI)
  fix n assume "n < LENGTH(32)"
  then have n: "n < 8 * 4"
    by simp
  from rev_index_less [OF n] n
  show "bit (uswap32 (NOT x)) n = bit (NOT (uswap32 x)) n"
    by (simp add: bit_uswap32 bit_not_iff)
qed

lemma uswap64_not: "uswap64 (NOT x) = NOT (uswap64 x)"
proof (rule bit_word_eqI)
  fix n assume "n < LENGTH(64)"
  then have n: "n < 8 * 8"
    by simp
  from rev_index_less [OF n] n
  show "bit (uswap64 (NOT x)) n = bit (NOT (uswap64 x)) n"
    by (simp add: bit_uswap64 bit_not_iff)
qed

lemma get_byte_uswap16: "i < 2 \<Longrightarrow> get_byte (uswap16 x) (1 - i) = get_byte x i"
  by (rule bit_eqI) (auto simp add: bit_get_byte bit_uswap16_byte)

lemma get_byte_uswap32: "i < 4 \<Longrightarrow> get_byte (uswap32 x) (3 - i) = get_byte x i"
  by (rule bit_eqI) (auto simp add: bit_get_byte bit_uswap32_byte)

lemma get_byte_uswap64: "i < 8 \<Longrightarrow> get_byte (uswap64 x) (7 - i) = get_byte x i"
  by (rule bit_eqI) (auto simp add: bit_get_byte bit_uswap64_byte)

lemma uswap_zero: "uswap16 0 = 0 \<and> uswap32 0 = 0 \<and> uswap64 0 = 0"
  by (simp add: uswap_defs)

lemma uswap16_ones: "uswap16 0xFFFF = 0xFFFF"
  by (simp add: uswap_defs)

lemma uswap32_ones: "uswap32 0xFFFFFFFF = 0xFFFFFFFF"
  by (simp add: uswap_defs)

lemma uswap64_ones: "uswap64 0xFFFFFFFFFFFFFFFF = 0xFFFFFFFFFFFFFFFF"
  by (simp add: uswap_defs)

section \<open>The queries\<close>

text \<open>
  Claim C5. Under every build configuration exactly one of the two queries is true:
  \<open>is_cpu_le\<close> and \<open>is_cpu_be\<close> never agree.
\<close>

theorem is_cpu_le_neq_is_cpu_be:
  "is_cpu_le HODEA_IS_CPU_LE \<noteq> is_cpu_be HODEA_IS_CPU_LE"
  by (simp add: query_defs)

section \<open>The reverse direction\<close>

text \<open>
  Claim C3. For every width and every order, the function converting to CPU byte order
  returns what the function converting from CPU byte order returns, on every input and
  under both configurations.
\<close>

theorem to_cpu_eq_cpu_to:
  "le16_to_cpu le x16 = cpu_to_le16 le x16 \<and>
   le32_to_cpu le x32 = cpu_to_le32 le x32 \<and>
   le64_to_cpu le x64 = cpu_to_le64 le x64 \<and>
   be16_to_cpu le x16 = cpu_to_be16 le x16 \<and>
   be32_to_cpu le x32 = cpu_to_be32 le x32 \<and>
   be64_to_cpu le x64 = cpu_to_be64 le x64"
  by (simp only: to_cpu_defs)

section \<open>Identity or byte reversal\<close>

text \<open>
  Claim C1. For every width and every target order: in a configuration whose native order
  is the target order (\<open>l\<close> reports little endian, \<open>b\<close> reports big endian) the
  conversion returns its argument; in the other configuration it returns the argument
  byte-reversed, that is, the byte at position \<open>i\<close> of the argument is the byte at position
  \<open>W/8 - 1 - i\<close> of the result, for every position \<open>i < W/8\<close>. The reversal is that
  of \<open>uswap16\<close>, \<open>uswap32\<close> and \<open>uswap64\<close> as the specification describes them.
\<close>

theorem cpu_to_order:
  assumes "is_cpu_le l" "is_cpu_be b" "i < 2" "j < 4" "k < 8"
  shows
    "cpu_to_le16 l x16 = x16 \<and> cpu_to_le32 l x32 = x32 \<and> cpu_to_le64 l x64 = x64 \<and>
     cpu_to_be16 b x16 = x16 \<and> cpu_to_be32 b x32 = x32 \<and> cpu_to_be64 b x64 = x64 \<and>
     get_byte (cpu_to_be16 l x16) (1 - i) = get_byte x16 i \<and>
     get_byte (cpu_to_be32 l x32) (3 - j) = get_byte x32 j \<and>
     get_byte (cpu_to_be64 l x64) (7 - k) = get_byte x64 k \<and>
     get_byte (cpu_to_le16 b x16) (1 - i) = get_byte x16 i \<and>
     get_byte (cpu_to_le32 b x32) (3 - j) = get_byte x32 j \<and>
     get_byte (cpu_to_le64 b x64) (7 - k) = get_byte x64 k"
proof -
  from assms(1,2) have l: "l" and b: "\<not> b"
    by (simp_all add: query_defs)
  from l b have same:
    "cpu_to_le16 l x16 = x16 \<and> cpu_to_le32 l x32 = x32 \<and> cpu_to_le64 l x64 = x64 \<and>
     cpu_to_be16 b x16 = x16 \<and> cpu_to_be32 b x32 = x32 \<and> cpu_to_be64 b x64 = x64"
    by (simp add: cpu_to_defs query_defs)
  from l b have swapped:
    "cpu_to_be16 l x16 = uswap16 x16" "cpu_to_be32 l x32 = uswap32 x32"
    "cpu_to_be64 l x64 = uswap64 x64" "cpu_to_le16 b x16 = uswap16 x16"
    "cpu_to_le32 b x32 = uswap32 x32" "cpu_to_le64 b x64 = uswap64 x64"
    by (simp_all add: cpu_to_defs query_defs)
  note bytes =
    get_byte_uswap16 [OF assms(3), of x16]
    get_byte_uswap32 [OF assms(4), of x32]
    get_byte_uswap64 [OF assms(5), of x64]
  from same bytes show ?thesis
    unfolding swapped by (intro conjI) (elim conjE, assumption)+
qed

text \<open>
  The theorem at the two configurations \<open>True\<close> (little endian) and \<open>False\<close> (big
  endian), and at the byte positions 1, 2 and 5.
\<close>

theorem cpu_to_order_witness:
  "is_cpu_le True \<and> is_cpu_be False \<and> (1::nat) < 2 \<and> (2::nat) < 4 \<and> (5::nat) < 8 \<and>
   cpu_to_le16 True 0xABCD = 0xABCD \<and>
   cpu_to_be64 False 0x0102030405060708 = 0x0102030405060708 \<and>
   get_byte (cpu_to_be16 True 0xABCD) (1 - 1) = get_byte (0xABCD :: uint16_t) 1 \<and>
   get_byte (cpu_to_be32 True 0x01020304) (3 - 2) = get_byte (0x01020304 :: uint32_t) 2 \<and>
   get_byte (cpu_to_le32 False 0x01020304) (3 - 2) = get_byte (0x01020304 :: uint32_t) 2 \<and>
   get_byte (cpu_to_be64 True 0x0102030405060708) (7 - 5)
     = get_byte (0x0102030405060708 :: uint64_t) 5"
proof -
  have h: "is_cpu_le True" "is_cpu_be False" "(1::nat) < 2" "(2::nat) < 4" "(5::nat) < 8"
    by (simp_all add: query_defs)
  show ?thesis
    using h cpu_to_order
      [OF h, where ?x16.0 = "0xABCD" and ?x32.0 = "0x01020304"
        and ?x64.0 = "0x0102030405060708"]
    by simp
qed

section \<open>Examples of the conversions\<close>

text \<open>
  Claim C2. In the little-endian configuration \<open>cpu_to_be16 0x0102 = 0x0201\<close>,
  \<open>cpu_to_be32 0x01020304 = 0x04030201\<close>,
  \<open>cpu_to_be64 0x0102030405060708 = 0x0807060504030201\<close>, \<open>cpu_to_le16 0xABCD = 0xABCD\<close>
  and \<open>cpu_to_be16 0xABCD = 0xCDAB\<close>; in the big-endian configuration
  \<open>cpu_to_be16 0xABCD = 0xABCD\<close> and \<open>cpu_to_le16 0xABCD = 0xCDAB\<close>. The first two
  conjuncts fix the reading of the configurations: \<open>True\<close> reports little endian and
  \<open>False\<close> reports big endian.
\<close>

theorem swap_examples:
  "is_cpu_le True \<and> is_cpu_be False \<and>
   cpu_to_be16 True 0x0102 = 0x0201 \<and>
   cpu_to_be32 True 0x01020304 = 0x04030201 \<and>
   cpu_to_be64 True 0x0102030405060708 = 0x0807060504030201 \<and>
   cpu_to_le16 True 0xABCD = 0xABCD \<and>
   cpu_to_be16 True 0xABCD = 0xCDAB \<and>
   cpu_to_be16 False 0xABCD = 0xABCD \<and>
   cpu_to_le16 False 0xABCD = 0xCDAB"
  by (simp add: cpu_to_defs query_defs uswap_defs)

section \<open>Involution\<close>

text \<open>
  Claim C4. For every width, every order, every input and both configurations, converting
  to an order and back to CPU order gives the input; applying the same conversion twice
  gives the input as well (whether or not it swaps); and the byte swap is its own inverse.
\<close>

theorem conversion_involution:
  "le16_to_cpu le (cpu_to_le16 le x16) = x16 \<and>
   le32_to_cpu le (cpu_to_le32 le x32) = x32 \<and>
   le64_to_cpu le (cpu_to_le64 le x64) = x64 \<and>
   be16_to_cpu le (cpu_to_be16 le x16) = x16 \<and>
   be32_to_cpu le (cpu_to_be32 le x32) = x32 \<and>
   be64_to_cpu le (cpu_to_be64 le x64) = x64 \<and>
   cpu_to_le16 le (cpu_to_le16 le x16) = x16 \<and>
   cpu_to_le32 le (cpu_to_le32 le x32) = x32 \<and>
   cpu_to_le64 le (cpu_to_le64 le x64) = x64 \<and>
   cpu_to_be16 le (cpu_to_be16 le x16) = x16 \<and>
   cpu_to_be32 le (cpu_to_be32 le x32) = x32 \<and>
   cpu_to_be64 le (cpu_to_be64 le x64) = x64 \<and>
   uswap16 (uswap16 x16) = x16 \<and>
   uswap32 (uswap32 x32) = x32 \<and>
   uswap64 (uswap64 x64) = x64"
  by (simp add: to_cpu_defs cpu_to_defs uswap16_uswap16 uswap32_uswap32 uswap64_uswap64)

section \<open>Boundary values\<close>

text \<open>
  Claim C7. Under both configurations, each of the twelve conversions maps the all-zero
  pattern to itself and the all-one pattern to itself, for the widths 16, 32 and 64.
\<close>

theorem boundary_fixed_points:
  "cpu_to_le16 le 0 = 0 \<and> cpu_to_le16 le 0xFFFF = 0xFFFF \<and>
   cpu_to_be16 le 0 = 0 \<and> cpu_to_be16 le 0xFFFF = 0xFFFF \<and>
   le16_to_cpu le 0 = 0 \<and> le16_to_cpu le 0xFFFF = 0xFFFF \<and>
   be16_to_cpu le 0 = 0 \<and> be16_to_cpu le 0xFFFF = 0xFFFF \<and>
   cpu_to_le32 le 0 = 0 \<and> cpu_to_le32 le 0xFFFFFFFF = 0xFFFFFFFF \<and>
   cpu_to_be32 le 0 = 0 \<and> cpu_to_be32 le 0xFFFFFFFF = 0xFFFFFFFF \<and>
   le32_to_cpu le 0 = 0 \<and> le32_to_cpu le 0xFFFFFFFF = 0xFFFFFFFF \<and>
   be32_to_cpu le 0 = 0 \<and> be32_to_cpu le 0xFFFFFFFF = 0xFFFFFFFF \<and>
   cpu_to_le64 le 0 = 0 \<and> cpu_to_le64 le 0xFFFFFFFFFFFFFFFF = 0xFFFFFFFFFFFFFFFF \<and>
   cpu_to_be64 le 0 = 0 \<and> cpu_to_be64 le 0xFFFFFFFFFFFFFFFF = 0xFFFFFFFFFFFFFFFF \<and>
   le64_to_cpu le 0 = 0 \<and> le64_to_cpu le 0xFFFFFFFFFFFFFFFF = 0xFFFFFFFFFFFFFFFF \<and>
   be64_to_cpu le 0 = 0 \<and> be64_to_cpu le 0xFFFFFFFFFFFFFFFF = 0xFFFFFFFFFFFFFFFF"
  using uswap_zero uswap16_ones uswap32_ones uswap64_ones
  by (simp add: to_cpu_defs cpu_to_defs)

section \<open>The little-endian and the big-endian image of a value\<close>

text \<open>
  Claim C8. For every width, every input and both configurations, converting to big endian
  and then to little endian, or the other way round, is the byte swap of the input: the
  byte at position \<open>i\<close> of the input is the byte at position \<open>W/8 - 1 - i\<close> of the
  result. Hence the little-endian image of a value is the byte swap of its big-endian image.
\<close>

theorem le_of_be_is_reversal:
  assumes "i < 2" "j < 4" "k < 8"
  shows
    "cpu_to_le16 le (cpu_to_be16 le x16) = uswap16 x16 \<and>
     cpu_to_be16 le (cpu_to_le16 le x16) = uswap16 x16 \<and>
     cpu_to_le32 le (cpu_to_be32 le x32) = uswap32 x32 \<and>
     cpu_to_be32 le (cpu_to_le32 le x32) = uswap32 x32 \<and>
     cpu_to_le64 le (cpu_to_be64 le x64) = uswap64 x64 \<and>
     cpu_to_be64 le (cpu_to_le64 le x64) = uswap64 x64 \<and>
     get_byte (cpu_to_le16 le (cpu_to_be16 le x16)) (1 - i) = get_byte x16 i \<and>
     get_byte (cpu_to_be16 le (cpu_to_le16 le x16)) (1 - i) = get_byte x16 i \<and>
     get_byte (cpu_to_le32 le (cpu_to_be32 le x32)) (3 - j) = get_byte x32 j \<and>
     get_byte (cpu_to_be32 le (cpu_to_le32 le x32)) (3 - j) = get_byte x32 j \<and>
     get_byte (cpu_to_le64 le (cpu_to_be64 le x64)) (7 - k) = get_byte x64 k \<and>
     get_byte (cpu_to_be64 le (cpu_to_le64 le x64)) (7 - k) = get_byte x64 k \<and>
     cpu_to_le16 le x16 = uswap16 (cpu_to_be16 le x16) \<and>
     cpu_to_le32 le x32 = uswap32 (cpu_to_be32 le x32) \<and>
     cpu_to_le64 le x64 = uswap64 (cpu_to_be64 le x64)"
proof -
  have comp:
    "cpu_to_le16 le (cpu_to_be16 le x16) = uswap16 x16"
    "cpu_to_be16 le (cpu_to_le16 le x16) = uswap16 x16"
    "cpu_to_le32 le (cpu_to_be32 le x32) = uswap32 x32"
    "cpu_to_be32 le (cpu_to_le32 le x32) = uswap32 x32"
    "cpu_to_le64 le (cpu_to_be64 le x64) = uswap64 x64"
    "cpu_to_be64 le (cpu_to_le64 le x64) = uswap64 x64"
    by (simp_all add: cpu_to_defs query_defs)
  have images:
    "cpu_to_le16 le x16 = uswap16 (cpu_to_be16 le x16)"
    "cpu_to_le32 le x32 = uswap32 (cpu_to_be32 le x32)"
    "cpu_to_le64 le x64 = uswap64 (cpu_to_be64 le x64)"
    by (simp_all add: cpu_to_defs query_defs uswap16_uswap16 uswap32_uswap32 uswap64_uswap64)
  note bytes =
    get_byte_uswap16 [OF assms(1), of x16]
    get_byte_uswap32 [OF assms(2), of x32]
    get_byte_uswap64 [OF assms(3), of x64]
  from bytes images show ?thesis
    unfolding comp by (intro conjI) (assumption | rule refl)+
qed

text \<open>The theorem in the big-endian configuration, at the byte positions 0, 3 and 6.\<close>

theorem le_of_be_is_reversal_witness:
  "(0::nat) < 2 \<and> (3::nat) < 4 \<and> (6::nat) < 8 \<and>
   cpu_to_le16 False (cpu_to_be16 False 0xABCD) = 0xCDAB \<and>
   cpu_to_be32 False (cpu_to_le32 False 0x01020304) = 0x04030201 \<and>
   get_byte (cpu_to_le64 False (cpu_to_be64 False 0x0102030405060708)) (7 - 6)
     = get_byte (0x0102030405060708 :: uint64_t) 6"
proof -
  have h: "(0::nat) < 2" "(3::nat) < 4" "(6::nat) < 8"
    by simp_all
  show ?thesis
    using h le_of_be_is_reversal
      [OF h, where le = False and ?x16.0 = "0xABCD" and ?x32.0 = "0x01020304"
        and ?x64.0 = "0x0102030405060708"]
    by (simp add: cpu_to_defs query_defs uswap_defs)
qed

section \<open>Bitwise complement\<close>

text \<open>
  Claim C9. Each conversion commutes with the bitwise complement taken in the width of its
  argument, for every input and both configurations.
\<close>

theorem conversion_complement:
  "cpu_to_le16 le (NOT x16) = NOT (cpu_to_le16 le x16) \<and>
   cpu_to_le32 le (NOT x32) = NOT (cpu_to_le32 le x32) \<and>
   cpu_to_le64 le (NOT x64) = NOT (cpu_to_le64 le x64) \<and>
   cpu_to_be16 le (NOT x16) = NOT (cpu_to_be16 le x16) \<and>
   cpu_to_be32 le (NOT x32) = NOT (cpu_to_be32 le x32) \<and>
   cpu_to_be64 le (NOT x64) = NOT (cpu_to_be64 le x64) \<and>
   le16_to_cpu le (NOT x16) = NOT (le16_to_cpu le x16) \<and>
   le32_to_cpu le (NOT x32) = NOT (le32_to_cpu le x32) \<and>
   le64_to_cpu le (NOT x64) = NOT (le64_to_cpu le x64) \<and>
   be16_to_cpu le (NOT x16) = NOT (be16_to_cpu le x16) \<and>
   be32_to_cpu le (NOT x32) = NOT (be32_to_cpu le x32) \<and>
   be64_to_cpu le (NOT x64) = NOT (be64_to_cpu le x64)"
  by (simp add: to_cpu_defs cpu_to_defs uswap16_not uswap32_not uswap64_not)

section \<open>Failure of the build and absence of failures at run time\<close>

lemma preprocess_Inl_iff:
  "preprocess e = Inl d \<longleftrightarrow> detect_HODEA_IS_CPU_LE e = None \<and> d = undetected_diagnostics"
  by (auto simp add: preprocess_def split: option.splits)

lemma preprocess_Inr_iff:
  "preprocess e = Inr le \<longleftrightarrow> detect_HODEA_IS_CPU_LE e = Some le"
  by (simp add: preprocess_def split: option.splits)

text \<open>
  The comparison of the preprocessor is one of representations: with \<^verbatim>\<open>__BYTE_ORDER__\<close>
  \<^verbatim>\<open>-1\<close> and \<^verbatim>\<open>__ORDER_LITTLE_ENDIAN__\<close> \<^verbatim>\<open>0xFFFFFFFFFFFFFFFF\<close> the header defines
  \<^verbatim>\<open>HODEA_IS_CPU_LE\<close> as \<^verbatim>\<open>true\<close>.
\<close>

lemma preprocess_gnuc_minus_one: "preprocess gnuc_minus_one = Inr True"
  by (simp add: preprocess_def detect_HODEA_IS_CPU_LE_def pp_value_def gnuc_minus_one_def)

text \<open>Every shift of the swap has a count below the width of its operand.\<close>

lemma move_byte_checked:
  assumes "8 * i < LENGTH('a)" "8 * j < LENGTH('a)"
  shows "move_byte_checked (x :: 'a::len word) i j = Inr (put_byte (get_byte x i) j)"
  using assms
  by (simp add: move_byte_checked_def shift_right_checked_def shift_left_checked_def
      get_byte_def put_byte_def)

lemma or_checked_Inr: "or_checked (Inr x) (Inr y) = Inr (x OR y)"
  by (simp add: or_checked_def)

lemma uswap16_checked: "uswap16_checked x = Inr (uswap16 x)"
  by (simp add: uswap16_checked_def uswap16_def move_byte_checked or_checked_Inr)

lemma uswap32_checked: "uswap32_checked x = Inr (uswap32 x)"
  by (simp add: uswap32_checked_def uswap32_def move_byte_checked or_checked_Inr)

lemma uswap64_checked: "uswap64_checked x = Inr (uswap64 x)"
  by (simp add: uswap64_checked_def uswap64_def move_byte_checked or_checked_Inr)

text \<open>
  Claim C6. When the compiler defines none of the toolchain macros the header recognises
  (\<^verbatim>\<open>__GNUC__\<close>, \<^verbatim>\<open>__clang__\<close>, \<^verbatim>\<open>__CC_ARM\<close>, \<^verbatim>\<open>__ICCARM__\<close>) and no value of
  \<^verbatim>\<open>HODEA_IS_CPU_LE\<close> is supplied, the translation stops with the two diagnostics of the
  header, the second of which names the override: \<^verbatim>\<open>HODEA_IS_CPU_LE = true or false\<close>.
  And no conversion has an error path at run time: under both configurations and on every
  bit pattern of its argument type, each of the twelve conversions, evaluated with the
  undefined operations of C++ made explicit, meets none of them and returns the value that
  the conversion is defined to return.
\<close>

theorem build_failure_is_the_only_failure:
  assumes "\<not> def_GNUC e" "\<not> def_clang e" "\<not> def_CC_ARM e" "\<not> def_ICCARM e"
    and "cmdline_HODEA_IS_CPU_LE e = None"
  shows
    "preprocess e =
       Inl [''Unable to detect cpu endianness via predefined macros.'',
            ''Please provide HODEA_IS_CPU_LE = true or false via command line.''] \<and>
     cpu_to_le16_checked le x16 = Inr (cpu_to_le16 le x16) \<and>
     cpu_to_le32_checked le x32 = Inr (cpu_to_le32 le x32) \<and>
     cpu_to_le64_checked le x64 = Inr (cpu_to_le64 le x64) \<and>
     cpu_to_be16_checked le x16 = Inr (cpu_to_be16 le x16) \<and>
     cpu_to_be32_checked le x32 = Inr (cpu_to_be32 le x32) \<and>
     cpu_to_be64_checked le x64 = Inr (cpu_to_be64 le x64) \<and>
     le16_to_cpu_checked le x16 = Inr (le16_to_cpu le x16) \<and>
     le32_to_cpu_checked le x32 = Inr (le32_to_cpu le x32) \<and>
     le64_to_cpu_checked le x64 = Inr (le64_to_cpu le x64) \<and>
     be16_to_cpu_checked le x16 = Inr (be16_to_cpu le x16) \<and>
     be32_to_cpu_checked le x32 = Inr (be32_to_cpu le x32) \<and>
     be64_to_cpu_checked le x64 = Inr (be64_to_cpu le x64)"
proof -
  from assms have "detect_HODEA_IS_CPU_LE e = None"
    by (simp add: detect_HODEA_IS_CPU_LE_def)
  then have build: "preprocess e =
       Inl [''Unable to detect cpu endianness via predefined macros.'',
            ''Please provide HODEA_IS_CPU_LE = true or false via command line.'']"
    by (simp add: preprocess_def undetected_diagnostics_def)
  have run:
    "cpu_to_le16_checked le x16 = Inr (cpu_to_le16 le x16)"
    "cpu_to_le32_checked le x32 = Inr (cpu_to_le32 le x32)"
    "cpu_to_le64_checked le x64 = Inr (cpu_to_le64 le x64)"
    "cpu_to_be16_checked le x16 = Inr (cpu_to_be16 le x16)"
    "cpu_to_be32_checked le x32 = Inr (cpu_to_be32 le x32)"
    "cpu_to_be64_checked le x64 = Inr (cpu_to_be64 le x64)"
    by (simp_all add: cpu_to_checked_defs cpu_to_defs
        uswap16_checked uswap32_checked uswap64_checked)
  from build run show ?thesis
    by (simp add: to_cpu_checked_defs to_cpu_defs)
qed

text \<open>
  The theorem at the environment \<open>unknown_toolchain\<close>, and at swapping conversions of
  each width.
\<close>

theorem build_failure_is_the_only_failure_witness:
  "\<not> def_GNUC unknown_toolchain \<and> \<not> def_clang unknown_toolchain \<and>
   \<not> def_CC_ARM unknown_toolchain \<and> \<not> def_ICCARM unknown_toolchain \<and>
   cmdline_HODEA_IS_CPU_LE unknown_toolchain = None \<and>
   preprocess unknown_toolchain =
     Inl [''Unable to detect cpu endianness via predefined macros.'',
          ''Please provide HODEA_IS_CPU_LE = true or false via command line.''] \<and>
   cpu_to_be16_checked True 0xABCD = Inr 0xCDAB \<and>
   cpu_to_be32_checked True 0x01020304 = Inr 0x04030201 \<and>
   le64_to_cpu_checked False 0x0102030405060708 = Inr 0x0807060504030201"
proof -
  have h: "\<not> def_GNUC unknown_toolchain" "\<not> def_clang unknown_toolchain"
    "\<not> def_CC_ARM unknown_toolchain" "\<not> def_ICCARM unknown_toolchain"
    "cmdline_HODEA_IS_CPU_LE unknown_toolchain = None"
    by (simp_all add: unknown_toolchain_def)
  note t = build_failure_is_the_only_failure [OF h]
  show ?thesis
    using h t [of True "0xABCD" "0x01020304"] t [of False _ _ "0x0102030405060708"]
    by (simp add: to_cpu_defs cpu_to_defs query_defs uswap_defs)
qed

end
